theory Spec2Isabelle
  imports Main
begin

section \<open>Python string operations used by the source\<close>



text \<open>\<open>s.startswith(p)\<close> and \<open>s.endswith(p)\<close>.\<close>

fun startswith :: "string \<Rightarrow> string \<Rightarrow> bool" where
  "startswith s [] = True"
| "startswith [] (p # ps) = False"
| "startswith (c # cs) (p # ps) = (c = p \<and> startswith cs ps)"

definition endswith :: "string \<Rightarrow> string \<Rightarrow> bool" where
  "endswith s p = startswith (rev s) (rev p)"


text \<open>\<open>sub in s\<close>.\<close>

fun py_contains :: "string \<Rightarrow> string \<Rightarrow> bool" where
  "py_contains [] sub = (sub = [])"
| "py_contains (c # cs) sub = (startswith (c # cs) sub \<or> py_contains cs sub)"

text \<open>
  \<open>str.lower()\<close> on the ASCII letters. Below code point 256 Python lowers the other
  letters to characters outside ASCII, so the two ASCII searches of the heuristic give
  the same answer.
\<close>

definition lower_char :: "char \<Rightarrow> char" where
  "lower_char c =
     (case map_of (zip ''ABCDEFGHIJKLMNOPQRSTUVWXYZ'' ''abcdefghijklmnopqrstuvwxyz'') c of
        None \<Rightarrow> c
      | Some l \<Rightarrow> l)"

definition py_lower :: "string \<Rightarrow> string" where
  "py_lower s = map lower_char s"


section \<open>Code-fence stripping\<close>


section \<open>Data model\<close>

text \<open>Scalar values of a result row, a row, and the connection object of the library.\<close>

datatype scalar = SInt int | SStr string | SBool bool | SNull

type_synonym row = "scalar list"

type_synonym handle = nat

text \<open>Exceptions; each carries the text \<open>str(e)\<close> gives.\<close>

datatype exn =
    FileNotFoundError string
  | DuckDBError string
  | OSError string
  | IndexError string

fun exn_str :: "exn \<Rightarrow> string" where
  "exn_str (FileNotFoundError m) = m"
| "exn_str (DuckDBError m) = m"
| "exn_str (OSError m) = m"
| "exn_str (IndexError m) = m"

text \<open>The lines the source prints, one constructor per format string.\<close>

datatype log_line =
    OpeningConnection string
  | ErrorConnecting exn
  | ChangingDatabase string
  | ErrorClosing exn
  | CreatingConnection string
  | ChangeSuccessful
  | FailedChange string
  | ErrorFetchingTables exn
  | FetchingSchema string
  | SchemaColumns string nat
  | ErrorFetchingSchema string exn
  | ResettingConnection
  | ResetSuccessful
  | FailedReset exn
  | ExecutingQuery string
  | QuerySucceeded nat
  | ErrorExecuting exn
  | ConnectionIssue
  | RetryingQuery
  | RetrySucceeded nat
  | RetryFailed exn
  | ErrorChangeDatabase exn

text \<open>
  What a run does to the outside, in order: the lines printed and the calls made to the
  database library and to the file system. No function of the model reads the trace.
\<close>

datatype event =
    Print log_line
  | Connect string "exn + handle"
  | Execute handle string
  | Close handle
  | MkDir string
  | WriteFile string
  | Unlink string

text \<open>
  The database library and the file system are outside the repository. They are a
  parameter: any behaviour over any type \<open>'w\<close> of outside worlds. \<open>conn_execute\<close> is
  \<open>conn.execute(q).fetchall()\<close>, \<open>conn_description\<close> the attribute \<open>conn.description\<close>
  (name and type code of each column, or \<open>None\<close>), \<open>fs_write\<close> the \<open>with open(..., 'wb')\<close>
  block of the upload, \<open>path_join\<close> pathlib's \<open>/\<close>.
\<close>

record 'w env =
  path_resolve :: "'w \<Rightarrow> string \<Rightarrow> string"
  path_exists :: "'w \<Rightarrow> string \<Rightarrow> bool"
  path_join :: "string \<Rightarrow> string \<Rightarrow> string"
  duckdb_connect :: "'w \<Rightarrow> string \<Rightarrow> (exn + handle) \<times> 'w"
  conn_close :: "'w \<Rightarrow> handle \<Rightarrow> exn option \<times> 'w"
  conn_execute :: "'w \<Rightarrow> handle \<Rightarrow> string \<Rightarrow> (exn + row list) \<times> 'w"
  conn_description :: "'w \<Rightarrow> handle \<Rightarrow> exn + (string \<times> string) list option"
  fs_mkdir :: "'w \<Rightarrow> string \<Rightarrow> exn option \<times> 'w"
  fs_write :: "'w \<Rightarrow> string \<Rightarrow> string \<Rightarrow> exn option \<times> 'w"
  fs_unlink :: "'w \<Rightarrow> string \<Rightarrow> exn option \<times> 'w"

text \<open>The module's globals \<open>DB_PATH\<close> and \<open>_db_connection\<close>, the outside world, the trace.\<close>

record 'w state =
  DB_PATH :: string
  db_connection :: "handle option"
  world :: 'w
  trace :: "event list"

text \<open>The dictionary \<open>execute_query\<close> returns; \<open>error\<close> is \<open>None\<close> when the key is absent.\<close>

record query_result =
  columns :: "string list"
  data :: "row list"
  error :: "string option"

text \<open>The upload of the form field \<open>db_file\<close>, and the endpoint's answer.\<close>

record upload =
  filename :: string
  payload :: string

record response =
  success :: bool
  message :: string

section \<open>Calls to the outside\<close>

definition log :: "log_line \<Rightarrow> 'w state \<Rightarrow> 'w state" where
  "log l s = s\<lparr>trace := trace s @ [Print l]\<rparr>"

definition call_connect :: "'w env \<Rightarrow> string \<Rightarrow> 'w state \<Rightarrow> (exn + handle) \<times> 'w state" where
  "call_connect E p s =
     (let (r, w) = duckdb_connect E (world s) p
      in (r, s\<lparr>world := w, trace := trace s @ [Connect p r]\<rparr>))"

definition call_close :: "'w env \<Rightarrow> handle \<Rightarrow> 'w state \<Rightarrow> exn option \<times> 'w state" where
  "call_close E h s =
     (let (r, w) = conn_close E (world s) h
      in (r, s\<lparr>world := w, trace := trace s @ [Close h]\<rparr>))"

definition call_execute ::
  "'w env \<Rightarrow> handle \<Rightarrow> string \<Rightarrow> 'w state \<Rightarrow> (exn + row list) \<times> 'w state" where
  "call_execute E h q s =
     (let (r, w) = conn_execute E (world s) h q
      in (r, s\<lparr>world := w, trace := trace s @ [Execute h q]\<rparr>))"

definition call_mkdir :: "'w env \<Rightarrow> string \<Rightarrow> 'w state \<Rightarrow> exn option \<times> 'w state" where
  "call_mkdir E p s =
     (let (r, w) = fs_mkdir E (world s) p
      in (r, s\<lparr>world := w, trace := trace s @ [MkDir p]\<rparr>))"

definition call_write ::
  "'w env \<Rightarrow> string \<Rightarrow> string \<Rightarrow> 'w state \<Rightarrow> exn option \<times> 'w state" where
  "call_write E p bytes s =
     (let (r, w) = fs_write E (world s) p bytes
      in (r, s\<lparr>world := w, trace := trace s @ [WriteFile p]\<rparr>))"

definition call_unlink :: "'w env \<Rightarrow> string \<Rightarrow> 'w state \<Rightarrow> exn option \<times> 'w state" where
  "call_unlink E p s =
     (let (r, w) = fs_unlink E (world s) p
      in (r, s\<lparr>world := w, trace := trace s @ [Unlink p]\<rparr>))"

section \<open>The connection manager\<close>

text \<open>\<open>get_connection\<close>, lines 28 to 45. \<open>Inl e\<close> is the exception \<open>e\<close> leaving the function.\<close>

definition get_connection :: "'w env \<Rightarrow> 'w state \<Rightarrow> (exn + handle) \<times> 'w state" where
  "get_connection E s =
     (case db_connection s of
        Some h \<Rightarrow> (Inr h, s)
      | None \<Rightarrow>
          (let db_path = path_resolve E (world s) (DB_PATH s)
           in if \<not> path_exists E (world s) db_path then
                (let e = FileNotFoundError (''Database file not found: '' @ db_path)
                 in (Inl e, log (ErrorConnecting e) s))
              else
                (let s1 = log (OpeningConnection db_path) s;
                     (r, s2) = call_connect E db_path s1
                 in case r of
                      Inl e \<Rightarrow> (Inl e, log (ErrorConnecting e) s2)
                    | Inr h \<Rightarrow> (Inr h, s2\<lparr>db_connection := Some h\<rparr>))))"

text \<open>
  The block both resets start with (lines 54 to 60 and 116 to 122): close the handle if
  there is one, print a failure to close, and drop the reference either way.
\<close>

definition close_existing :: "'w env \<Rightarrow> 'w state \<Rightarrow> 'w state" where
  "close_existing E s =
     (case db_connection s of
        None \<Rightarrow> s
      | Some h \<Rightarrow>
          (let (r, s1) = call_close E h s;
               s2 = (case r of None \<Rightarrow> s1 | Some e \<Rightarrow> log (ErrorClosing e) s1)
           in s2\<lparr>db_connection := None\<rparr>))"

text \<open>The handler of \<open>reset_with_new_db\<close>, lines 78 to 82.\<close>

definition change_failed :: "exn \<Rightarrow> 'w state \<Rightarrow> (bool \<times> string option) \<times> 'w state" where
  "change_failed e s =
     (let error_msg = ''Failed to change database: '' @ exn_str e
      in ((False, Some error_msg), (log (FailedChange error_msg) s)\<lparr>db_connection := None\<rparr>))"

text \<open>\<open>reset_with_new_db\<close>, lines 47 to 82.\<close>

definition reset_with_new_db ::
  "'w env \<Rightarrow> string \<Rightarrow> 'w state \<Rightarrow> (bool \<times> string option) \<times> 'w state" where
  "reset_with_new_db E new_db_path s =
     (let s0 = log (ChangingDatabase new_db_path) s;
          s1 = close_existing E s0;
          s2 = s1\<lparr>DB_PATH := new_db_path\<rparr>;
          db_path = path_resolve E (world s2) (DB_PATH s2)
      in if \<not> path_exists E (world s2) db_path then
           change_failed (FileNotFoundError (''Database file not found: '' @ db_path)) s2
         else
           (let s3 = log (CreatingConnection db_path) s2;
                (r, s4) = call_connect E db_path s3
            in case r of
                 Inl e \<Rightarrow> change_failed e s4
               | Inr h \<Rightarrow>
                   (let s5 = s4\<lparr>db_connection := Some h\<rparr>;
                        (p, s6) = call_execute E h ''SELECT 1'' s5
                    in case p of
                         Inl e \<Rightarrow> change_failed e s6
                       | Inr rows \<Rightarrow> ((True, None), log ChangeSuccessful s6))))"

text \<open>The handler of \<open>reset_connection\<close>, lines 133 to 136.\<close>

definition reset_failed :: "exn \<Rightarrow> 'w state \<Rightarrow> bool \<times> 'w state" where
  "reset_failed e s = (False, (log (FailedReset e) s)\<lparr>db_connection := None\<rparr>)"

text \<open>\<open>reset_connection\<close>, lines 110 to 136.\<close>

definition reset_connection :: "'w env \<Rightarrow> 'w state \<Rightarrow> bool \<times> 'w state" where
  "reset_connection E s =
     (let s0 = log ResettingConnection s;
          s1 = close_existing E s0;
          db_path = path_resolve E (world s1) (DB_PATH s1);
          s2 = log (CreatingConnection db_path) s1;
          (r, s3) = call_connect E db_path s2
      in case r of
           Inl e \<Rightarrow> reset_failed e s3
         | Inr h \<Rightarrow>
             (let s4 = s3\<lparr>db_connection := Some h\<rparr>;
                  (p, s5) = call_execute E h ''SELECT 1'' s4
              in case p of
                   Inl e \<Rightarrow> reset_failed e s5
                 | Inr rows \<Rightarrow> (True, log ResetSuccessful s5)))"

section \<open>Schema introspection\<close>

text \<open>\<open>[table[0] for table in tables]\<close>: an empty row raises \<open>IndexError\<close>.\<close>

fun first_columns :: "row list \<Rightarrow> exn + scalar list" where
  "first_columns [] = Inr []"
| "first_columns ([] # ts) = Inl (IndexError ''tuple index out of range'')"
| "first_columns ((v # vs) # ts) =
     (case first_columns ts of Inl e \<Rightarrow> Inl e | Inr names \<Rightarrow> Inr (v # names))"

text \<open>\<open>get_table_names\<close>, lines 84 to 93.\<close>

definition get_table_names :: "'w env \<Rightarrow> 'w state \<Rightarrow> (exn + scalar list) \<times> 'w state" where
  "get_table_names E s =
     (case get_connection E s of
        (Inl e, s1) \<Rightarrow> (Inl e, s1)
      | (Inr conn, s1) \<Rightarrow>
          (let (r, s2) = call_execute E conn ''SHOW TABLES'' s1
           in case r of
                Inl e \<Rightarrow> (Inr [], log (ErrorFetchingTables e) s2)
              | Inr tables \<Rightarrow>
                  (case first_columns tables of
                     Inl e \<Rightarrow> (Inr [], log (ErrorFetchingTables e) s2)
                   | Inr names \<Rightarrow> (Inr names, s2))))"

text \<open>\<open>get_table_schema\<close>, lines 96 to 107.\<close>

definition get_table_schema ::
  "'w env \<Rightarrow> string \<Rightarrow> 'w state \<Rightarrow> (exn + row list) \<times> 'w state" where
  "get_table_schema E table_name s =
     (case get_connection E s of
        (Inl e, s1) \<Rightarrow> (Inl e, s1)
      | (Inr conn, s1) \<Rightarrow>
          (let s2 = log (FetchingSchema table_name) s1;
               (r, s3) = call_execute E conn (''DESCRIBE '' @ table_name) s2
           in case r of
                Inl e \<Rightarrow> (Inr [], log (ErrorFetchingSchema table_name e) s3)
              | Inr schema \<Rightarrow>
                  (Inr schema, log (SchemaColumns table_name (length schema)) s3)))"

section \<open>The query executor\<close>

text \<open>
  The heuristic of line 156: \<open>"connection" in str(e).lower() or "database" in
  str(e).lower()\<close>.
\<close>

definition connection_fault :: "exn \<Rightarrow> bool" where
  "connection_fault e =
     (py_contains (py_lower (exn_str e)) ''connection''
      \<or> py_contains (py_lower (exn_str e)) ''database'')"

text \<open>
  Running one statement and reading its columns, as lines 145 to 149 and again lines 163
  to 166 do: the rows of \<open>conn.execute(query).fetchall()\<close>, then the names in
  \<open>conn.description\<close>, none when it is \<open>None\<close>.
\<close>

definition fetch_result ::
  "'w env \<Rightarrow> handle \<Rightarrow> string \<Rightarrow> 'w state \<Rightarrow> (exn + row list \<times> string list) \<times> 'w state" where
  "fetch_result E conn query s =
     (let (r, s1) = call_execute E conn query s
      in case r of
           Inl e \<Rightarrow> (Inl e, s1)
         | Inr result \<Rightarrow>
             (case conn_description E (world s1) conn of
                Inl e \<Rightarrow> (Inl e, s1)
              | Inr None \<Rightarrow> (Inr (result, []), s1)
              | Inr (Some description) \<Rightarrow> (Inr (result, map fst description), s1)))"

text \<open>The retry of lines 160 to 172, entered once \<open>reset_connection\<close> has returned \<open>True\<close>.\<close>

definition retry_query :: "'w env \<Rightarrow> string \<Rightarrow> 'w state \<Rightarrow> query_result \<times> 'w state" where
  "retry_query E query s =
     (let retry_failed = (\<lambda>retry_error s'.
            (\<lparr>columns = [], data = [],
              error = Some (''Query failed after connection reset: '' @ exn_str retry_error)\<rparr>,
             log (RetryFailed retry_error) s'))
      in case get_connection E s of
           (Inl retry_error, s1) \<Rightarrow> retry_failed retry_error s1
         | (Inr conn, s1) \<Rightarrow>
             (let s2 = log RetryingQuery s1
              in case fetch_result E conn query s2 of
                   (Inl retry_error, s3) \<Rightarrow> retry_failed retry_error s3
                 | (Inr (result, cols), s3) \<Rightarrow>
                     (\<lparr>columns = cols, data = result, error = None\<rparr>,
                      log (RetrySucceeded (length result)) s3)))"

text \<open>
  \<open>execute_query\<close>, lines 138 to 174. \<open>get_connection\<close> is called before the \<open>try\<close>, so its
  exception leaves \<open>execute_query\<close>: the result \<open>Inl e\<close>.
\<close>

definition execute_query ::
  "'w env \<Rightarrow> string \<Rightarrow> 'w state \<Rightarrow> (exn + query_result) \<times> 'w state" where
  "execute_query E query s =
     (case get_connection E s of
        (Inl e, s1) \<Rightarrow> (Inl e, s1)
      | (Inr conn, s1) \<Rightarrow>
          (let s2 = log (ExecutingQuery (take 100 query)) s1
           in case fetch_result E conn query s2 of
                (Inr (result, cols), s3) \<Rightarrow>
                  (Inr \<lparr>columns = cols, data = result, error = None\<rparr>,
                   log (QuerySucceeded (length result)) s3)
              | (Inl e, s3) \<Rightarrow>
                  (let s4 = log (ErrorExecuting e) s3;
                       final = (\<lambda>s'. (Inr \<lparr>columns = [], data = [],
                                               error = Some (exn_str e)\<rparr>, s'))
                   in if connection_fault e then
                        (let s5 = log ConnectionIssue s4;
                             (ok, s6) = reset_connection E s5
                         in if ok then
                              (let (res, s7) = retry_query E query s6 in (Inr res, s7))
                            else final s6)
                      else final s4)))"

section \<open>The database-swap endpoint\<close>

text \<open>The handler of \<open>change_database_endpoint\<close>, lines 2664 to 2666.\<close>

definition endpoint_failed :: "exn \<Rightarrow> 'w state \<Rightarrow> response \<times> 'w state" where
  "endpoint_failed e s =
     (\<lparr>success = False, message = ''An error occurred: '' @ exn_str e\<rparr>,
      log (ErrorChangeDatabase e) s)"

text \<open>
  \<open>change_database_endpoint\<close>, lines 2627 to 2666. The argument is the form field
  \<open>db_file\<close>, \<open>None\<close> when the form has none.
\<close>

definition change_database_endpoint ::
  "'w env \<Rightarrow> upload option \<Rightarrow> 'w state \<Rightarrow> response \<times> 'w state" where
  "change_database_endpoint E db_file s =
     (case db_file of
        None \<Rightarrow> (\<lparr>success = False, message = ''No file uploaded''\<rparr>, s)
      | Some file \<Rightarrow>
          if filename file = [] then
            (\<lparr>success = False, message = ''No file selected''\<rparr>, s)
          else if \<not> (endswith (filename file) ''.duckdb'' \<or> endswith (filename file) ''.db'') then
            (\<lparr>success = False,
              message = ''Invalid file type. Please upload a .duckdb or .db file''\<rparr>, s)
          else
            (let temp_dir = ''temp_db'';
                 (made, s1) = call_mkdir E temp_dir s
             in case made of
                  Some e \<Rightarrow> endpoint_failed e s1
                | None \<Rightarrow>
                    (let file_path = path_join E temp_dir (filename file);
                         (written, s2) = call_write E file_path (payload file) s1
                     in case written of
                          Some e \<Rightarrow> endpoint_failed e s2
                        | None \<Rightarrow>
                            (let ((ok, err), s3) = reset_with_new_db E file_path s2
                             in if ok then
                                  (\<lparr>success = True,
                                    message = ''Successfully connected to '' @ filename file\<rparr>, s3)
                                else
                                  (let failed = \<lparr>success = False,
                                         message = ''Failed to connect: ''
                                           @ (case err of None \<Rightarrow> ''None'' | Some m \<Rightarrow> m)\<rparr>
                                   in if path_exists E (world s3) file_path then
                                        (let (removed, s4) = call_unlink E file_path s3
                                         in case removed of
                                              Some e \<Rightarrow> endpoint_failed e s4
                                            | None \<Rightarrow> (failed, s4))
                                      else (failed, s3))))))"

section \<open>Observations on a trace, and runs of calls\<close>

text \<open>
  How often \<open>reset_connection\<close> was entered and how often the retry of \<open>execute_query\<close>
  was started (each prints its line once), how many statements were sent to the library,
  and how many connections the library opened.
\<close>

definition resets :: "event list \<Rightarrow> nat" where
  "resets t = length (filter (\<lambda>ev. ev = Print ResettingConnection) t)"

definition retries :: "event list \<Rightarrow> nat" where
  "retries t = length (filter (\<lambda>ev. ev = Print RetryingQuery) t)"

fun is_execute :: "event \<Rightarrow> bool" where
  "is_execute (Execute h q) = True"
| "is_execute ev = False"

definition executes :: "event list \<Rightarrow> nat" where
  "executes t = length (filter is_execute t)"

fun is_opened :: "event \<Rightarrow> bool" where
  "is_opened (Connect p (Inr h)) = True"
| "is_opened ev = False"

definition opens :: "event list \<Rightarrow> nat" where
  "opens t = length (filter is_opened t)"

text \<open>The number of handles the manager holds: none or one.\<close>

definition held :: "'w state \<Rightarrow> nat" where
  "held s = (case db_connection s of None \<Rightarrow> 0 | Some h \<Rightarrow> 1)"

text \<open>A sequence of \<open>n\<close> calls of \<open>get_connection\<close> with nothing in between.\<close>

fun get_many :: "'w env \<Rightarrow> nat \<Rightarrow> 'w state \<Rightarrow> (exn + handle) list \<times> 'w state" where
  "get_many E 0 s = ([], s)"
| "get_many E (Suc n) s =
     (let (r, s1) = get_connection E s;
          (rs, s2) = get_many E n s1
      in (r # rs, s2))"

section \<open>A scripted outside world\<close>

text \<open>
  A test double for the library and the file system, used to run the model on concrete
  inputs: the files that exist, and the scripted outcomes of the coming calls of
  \<open>duckdb.connect\<close>, \<open>execute\<close>, \<open>close\<close> and of the upload's write. A call whose script
  is used up fails (connect, execute) or succeeds (close, write). Opening the upload's
  target creates the file, also when the write then raises.
\<close>

record mock =
  m_files :: "string list"
  m_connects :: "(exn + handle) list"
  m_executes :: "(exn + row list) list"
  m_closes :: "exn option list"
  m_description :: "exn + (string \<times> string) list option"
  m_writes :: "exn option list"

definition mock_env :: "mock env" where
  "mock_env =
     \<lparr>path_resolve = (\<lambda>w p. p),
      path_exists = (\<lambda>w p. p \<in> set (m_files w)),
      path_join = (\<lambda>d f. d @ ''/'' @ f),
      duckdb_connect = (\<lambda>w p.
        case m_connects w of
          [] \<Rightarrow> (Inl (DuckDBError ''IO Error: Cannot open file''), w)
        | r # rs \<Rightarrow> (r, w\<lparr>m_connects := rs\<rparr>)),
      conn_close = (\<lambda>w h.
        case m_closes w of
          [] \<Rightarrow> (None, w)
        | r # rs \<Rightarrow> (r, w\<lparr>m_closes := rs\<rparr>)),
      conn_execute = (\<lambda>w h q.
        case m_executes w of
          [] \<Rightarrow> (Inl (DuckDBError ''Connection Error: Connection already closed''), w)
        | r # rs \<Rightarrow> (r, w\<lparr>m_executes := rs\<rparr>)),
      conn_description = (\<lambda>w h. m_description w),
      fs_mkdir = (\<lambda>w p. (None, w)),
      fs_write = (\<lambda>w p bytes.
        case m_writes w of
          [] \<Rightarrow> (None, w\<lparr>m_files := p # m_files w\<rparr>)
        | r # rs \<Rightarrow> (r, w\<lparr>m_files := p # m_files w, m_writes := rs\<rparr>)),
      fs_unlink = (\<lambda>w p. (None, w\<lparr>m_files := removeAll p (m_files w)\<rparr>))\<rparr>"

text \<open>A world with the given files and scripts, and a manager state over it.\<close>

definition mock_world ::
  "string list \<Rightarrow> (exn + handle) list \<Rightarrow> (exn + row list) list \<Rightarrow> mock" where
  "mock_world fs cs xs =
     \<lparr>m_files = fs, m_connects = cs, m_executes = xs, m_closes = [],
      m_description = Inr (Some [(''id'', ''INTEGER'')]), m_writes = []\<rparr>"

definition manager :: "string \<Rightarrow> handle option \<Rightarrow> mock \<Rightarrow> mock state" where
  "manager p c w = \<lparr>DB_PATH = p, db_connection = c, world = w, trace = []\<rparr>"

section \<open>Facts about the string operations\<close>











section \<open>Code-fence stripping: what the round trip is\<close>






section \<open>Facts about the manager\<close>

lemmas call_defs = log_def call_connect_def call_close_def call_execute_def
  call_mkdir_def call_write_def call_unlink_def
lemmas count_defs = resets_def retries_def executes_def opens_def
lemmas mock_defs = mock_env_def mock_world_def manager_def
lemmas exec_defs = execute_query_def retry_query_def fetch_result_def reset_connection_def
  reset_failed_def close_existing_def get_connection_def

lemma log_counts:
  "resets (trace (log l s)) = resets (trace s) + (if l = ResettingConnection then 1 else 0)"
  "retries (trace (log l s)) = retries (trace s) + (if l = RetryingQuery then 1 else 0)"
  "executes (trace (log l s)) = executes (trace s)"
  by (simp_all add: log_def count_defs)

lemma close_existing_frame:
  "db_connection (close_existing E s) = None \<and> DB_PATH (close_existing E s) = DB_PATH s"
  by (auto simp: close_existing_def call_defs Let_def split: option.splits prod.splits)

lemma close_existing_counts:
  "resets (trace (close_existing E s)) = resets (trace s)
   \<and> retries (trace (close_existing E s)) = retries (trace s)
   \<and> executes (trace (close_existing E s)) = executes (trace s)
   \<and> opens (trace (close_existing E s)) = opens (trace s)"
  by (auto simp: close_existing_def call_defs count_defs Let_def split: option.splits prod.splits)

lemma get_connection_held: "db_connection s = Some h \<Longrightarrow> get_connection E s = (Inr h, s)"
  by (simp add: get_connection_def)

lemma get_connection_counts:
  assumes "get_connection E s = (r, s1)"
  shows "resets (trace s1) = resets (trace s) \<and> retries (trace s1) = retries (trace s)
       \<and> executes (trace s1) = executes (trace s) \<and> DB_PATH s1 = DB_PATH s"
  using assms
  by (auto simp: get_connection_def call_defs count_defs Let_def
      split: option.splits prod.splits sum.splits if_splits)

lemma get_connection_result:
  assumes "get_connection E s = (r, s1)"
  shows "(case r of Inl e \<Rightarrow> db_connection s1 = db_connection s \<and> db_connection s = None
          | Inr h \<Rightarrow> db_connection s1 = Some h)"
  using assms
  by (auto simp: get_connection_def call_defs Let_def
      split: option.splits prod.splits sum.splits if_splits)

lemma fetch_result_counts:
  assumes "fetch_result E conn query s = (r, s')"
  shows "resets (trace s') = resets (trace s) \<and> retries (trace s') = retries (trace s)
       \<and> executes (trace s') = executes (trace s) + 1 \<and> db_connection s' = db_connection s"
  using assms
  by (auto simp: fetch_result_def call_defs count_defs Let_def
      split: prod.splits sum.splits option.splits)

lemma reset_connection_counts:
  assumes "reset_connection E s = (ok, s')"
  shows "resets (trace s') = resets (trace s) + 1 \<and> retries (trace s') = retries (trace s)
       \<and> executes (trace s') \<le> executes (trace s) + 1
       \<and> (ok \<longrightarrow> executes (trace s') = executes (trace s) + 1 \<and> (\<exists>h. db_connection s' = Some h))"
proof -
  let ?s1 = "close_existing E (log ResettingConnection s)"
  have c: "resets (trace ?s1) = resets (trace s) + 1" "retries (trace ?s1) = retries (trace s)"
    "executes (trace ?s1) = executes (trace s)"
    by (simp_all add: close_existing_counts log_counts)
  have "resets (trace s') = resets (trace ?s1) \<and> retries (trace s') = retries (trace ?s1)
       \<and> executes (trace s') \<le> executes (trace ?s1) + 1
       \<and> (ok \<longrightarrow> executes (trace s') = executes (trace ?s1) + 1 \<and> (\<exists>h. db_connection s' = Some h))"
    using assms
    by (auto simp: reset_connection_def reset_failed_def call_defs count_defs Let_def
        split: prod.splits sum.splits)
  with c show ?thesis by simp
qed

lemma retry_query_held:
  assumes "db_connection s = Some h" and "retry_query E query s = (res, s')"
  shows "resets (trace s') = resets (trace s) \<and> retries (trace s') = retries (trace s) + 1
       \<and> executes (trace s') = executes (trace s) + 1
       \<and> (case fetch_result E h query (log RetryingQuery s) of
            (Inl e2, s8) \<Rightarrow>
              res = \<lparr>columns = [], data = [],
                     error = Some (''Query failed after connection reset: '' @ exn_str e2)\<rparr>
          | (Inr (rows, cols), s8) \<Rightarrow> res = \<lparr>columns = cols, data = rows, error = None\<rparr>)"
proof -
  obtain r s3 where f: "fetch_result E h query (log RetryingQuery s) = (r, s3)"
    by (cases "fetch_result E h query (log RetryingQuery s)")
  from fetch_result_counts [OF f]
  have c: "resets (trace s3) = resets (trace s)" "retries (trace s3) = retries (trace s) + 1"
    "executes (trace s3) = executes (trace s) + 1"
    by (simp_all add: log_counts)
  show ?thesis
  proof (cases r)
    case (Inl e2)
    with assms f have "s' = log (RetryFailed e2) s3"
      "res = \<lparr>columns = [], data = [],
              error = Some (''Query failed after connection reset: '' @ exn_str e2)\<rparr>"
      by (simp_all add: retry_query_def get_connection_held Let_def)
    with c f Inl show ?thesis
      by (simp add: log_counts)
  next
    case (Inr p)
    obtain rows cols where p: "p = (rows, cols)"
      by (cases p)
    with Inr assms f have "s' = log (RetrySucceeded (length rows)) s3"
      "res = \<lparr>columns = cols, data = rows, error = None\<rparr>"
      by (simp_all add: retry_query_def get_connection_held Let_def)
    with c f Inr p show ?thesis
      by (simp add: log_counts)
  qed
qed

lemma get_many_held: "db_connection s = Some h \<Longrightarrow> get_many E n s = (replicate n (Inr h), s)"
  by (induction n) (simp_all add: get_connection_held)

lemma get_connection_opens:
  assumes "get_connection E s = (r, s1)"
  shows "opens (trace s1) + held s = opens (trace s) + held s1"
  using assms
  by (auto simp: get_connection_def call_defs opens_def held_def Let_def
      split: option.splits prod.splits sum.splits if_splits)

lemma get_many_opens:
  "get_many E n s = (rs, s') \<Longrightarrow> opens (trace s') + held s = opens (trace s) + held s'"
proof (induction n arbitrary: s rs s')
  case 0
  then show ?case by simp
next
  case (Suc n)
  obtain r s1 where g: "get_connection E s = (r, s1)"
    by (cases "get_connection E s")
  obtain rs1 s2 where m: "get_many E n s1 = (rs1, s2)"
    by (cases "get_many E n s1")
  from Suc.prems g m have "s' = s2"
    by simp
  with Suc.IH [OF m] get_connection_opens [OF g] show ?case
    by simp
qed

lemma get_many_frame: "get_many E n s = (rs, s') \<Longrightarrow> DB_PATH s' = DB_PATH s"
proof (induction n arbitrary: s rs s')
  case 0
  then show ?case by simp
next
  case (Suc n)
  obtain r s1 where g: "get_connection E s = (r, s1)"
    by (cases "get_connection E s")
  obtain rs1 s2 where m: "get_many E n s1 = (rs1, s2)"
    by (cases "get_many E n s1")
  from Suc.prems g m have "s' = s2"
    by simp
  with Suc.IH [OF m] get_connection_counts [OF g] show ?case
    by simp
qed

lemma held_le: "held s \<le> 1"
  by (simp add: held_def split: option.splits)

section \<open>Swapping the database file\<close>

text \<open>
  C1, as stated: after a failed swap the configured path is not committed to the new
  path. The program assigns \<open>DB_PATH\<close> before it validates the path and never restores
  it: a swap to a missing file fails and leaves \<open>DB_PATH\<close> at that file.
\<close>

theorem swap_failure_counterexample:
  "fst (fst (reset_with_new_db mock_env ''missing.duckdb''
        (manager ''old.duckdb'' (Some 0) (mock_world [''old.duckdb''] [] [])))) = False
   \<and> DB_PATH (snd (reset_with_new_db mock_env ''missing.duckdb''
        (manager ''old.duckdb'' (Some 0) (mock_world [''old.duckdb''] [] [])))) = ''missing.duckdb''"
  by (simp add: reset_with_new_db_def change_failed_def close_existing_def call_defs mock_defs Let_def)

text \<open>
  C1, amended: a call of \<open>reset_with_new_db\<close> that fails (the path does not exist, the
  open fails or the probe fails; a failure to close the old handle is printed and is no
  failure of the call) returns \<open>False\<close> with a message, leaves the manager with no handle,
  and leaves \<open>DB_PATH\<close> at the new path. So the old file is not served afterwards: a later
  \<open>get_connection\<close> that returns a handle has just opened it on the new path.
\<close>

theorem swap_failure:
  assumes "reset_with_new_db E new_db_path s = ((False, msg), s')"
  shows "db_connection s' = None \<and> DB_PATH s' = new_db_path
       \<and> (\<exists>m. msg = Some (''Failed to change database: '' @ m))
       \<and> (\<forall>h s''. get_connection E s' = (Inr h, s'') \<longrightarrow>
            trace s'' = trace s' @
              [Print (OpeningConnection (path_resolve E (world s') new_db_path)),
               Connect (path_resolve E (world s') new_db_path) (Inr h)])"
proof -
  have a: "db_connection s' = None \<and> DB_PATH s' = new_db_path
       \<and> (\<exists>m. msg = Some (''Failed to change database: '' @ m))"
    using assms
    by (auto simp: reset_with_new_db_def change_failed_def call_defs Let_def close_existing_frame
        split: prod.splits sum.splits if_splits)
  have b: "trace s'' = trace s' @
              [Print (OpeningConnection (path_resolve E (world s') new_db_path)),
               Connect (path_resolve E (world s') new_db_path) (Inr h)]"
    if "get_connection E s' = (Inr h, s'')" for h s''
    using that a
    by (auto simp: get_connection_def call_defs Let_def
        split: prod.splits sum.splits if_splits)
  from a b show ?thesis by blast
qed

theorem swap_failure_witness:
  "fst (reset_with_new_db mock_env ''bad.db''
     (manager ''old.duckdb'' (Some 0)
        (mock_world [''old.duckdb'', ''bad.db''] [Inl (DuckDBError ''IO Error: not a database''), Inr 5] [])))
   = (False, Some ''Failed to change database: IO Error: not a database'')
   \<and> db_connection (snd (reset_with_new_db mock_env ''bad.db''
     (manager ''old.duckdb'' (Some 0)
        (mock_world [''old.duckdb'', ''bad.db''] [Inl (DuckDBError ''IO Error: not a database''), Inr 5] []))))
      = None
   \<and> DB_PATH (snd (reset_with_new_db mock_env ''bad.db''
     (manager ''old.duckdb'' (Some 0)
        (mock_world [''old.duckdb'', ''bad.db''] [Inl (DuckDBError ''IO Error: not a database''), Inr 5] []))))
      = ''bad.db''
   \<and> fst (get_connection mock_env (snd (reset_with_new_db mock_env ''bad.db''
     (manager ''old.duckdb'' (Some 0)
        (mock_world [''old.duckdb'', ''bad.db''] [Inl (DuckDBError ''IO Error: not a database''), Inr 5] [])))))
      = Inr 5
   \<and> last (trace (snd (get_connection mock_env (snd (reset_with_new_db mock_env ''bad.db''
     (manager ''old.duckdb'' (Some 0)
        (mock_world [''old.duckdb'', ''bad.db''] [Inl (DuckDBError ''IO Error: not a database''), Inr 5] [])))))))
      = Connect ''bad.db'' (Inr 5)"
proof -
  let ?s = "manager ''old.duckdb'' (Some 0)
        (mock_world [''old.duckdb'', ''bad.db''] [Inl (DuckDBError ''IO Error: not a database''), Inr 5] [])"
  let ?s' = "snd (reset_with_new_db mock_env ''bad.db'' ?s)"
  have f: "fst (reset_with_new_db mock_env ''bad.db'' ?s)
     = (False, Some ''Failed to change database: IO Error: not a database'')"
    by (simp add: reset_with_new_db_def change_failed_def close_existing_def call_defs
        mock_defs Let_def)
  then obtain s' where h: "reset_with_new_db mock_env ''bad.db'' ?s
     = ((False, Some ''Failed to change database: IO Error: not a database''), s')"
    by (cases "reset_with_new_db mock_env ''bad.db'' ?s") simp
  then have s': "s' = ?s'"
    by simp
  have g: "fst (get_connection mock_env ?s') = Inr 5"
    by (simp add: get_connection_def reset_with_new_db_def change_failed_def close_existing_def
        call_defs mock_defs Let_def)
  then obtain s'' where g': "get_connection mock_env s' = (Inr 5, s'')"
    unfolding s' by (cases "get_connection mock_env ?s'") simp
  then have s'': "s'' = snd (get_connection mock_env ?s')"
    unfolding s' by simp
  have r: "path_resolve mock_env w p = p" for w p
    by (simp add: mock_defs)
  from swap_failure [OF h] g'
  have "db_connection s' = None" "DB_PATH s' = ''bad.db''" "last (trace s'') = Connect ''bad.db'' (Inr 5)"
    by (simp_all add: r)
  with f g show ?thesis
    unfolding s' s'' by simp
qed

section \<open>Failure to obtain the connection\<close>

text \<open>
  C3, as stated: when the connection cannot be obtained, \<open>execute_query\<close> returns a
  result with the error field set. With the configured file missing it returns nothing:
  the \<open>FileNotFoundError\<close> of \<open>get_connection\<close>, called before the \<open>try\<close>, leaves
  \<open>execute_query\<close>.
\<close>

theorem execute_query_propagates_counterexample:
  "fst (execute_query mock_env ''SELECT 1''
          (manager ''missing.duckdb'' None (mock_world [] [] [])))
     = Inl (FileNotFoundError ''Database file not found: missing.duckdb'')"
  by (simp add: execute_query_def get_connection_def call_defs mock_defs Let_def)

text \<open>
  C3, amended: when \<open>get_connection\<close> raises, \<open>execute_query\<close> raises the same exception
  and returns no result; no handle is held afterwards and no statement has been run.
  With no handle and the configured path not an existing file, the exception is the
  \<open>FileNotFoundError\<close> that names the resolved path.
\<close>

theorem execute_query_propagates:
  "(get_connection E s = (Inl e, s1) \<longrightarrow>
      execute_query E query s = (Inl e, s1) \<and> db_connection s1 = None
      \<and> executes (trace s1) = executes (trace s))
   \<and> (db_connection s = None
        \<and> \<not> path_exists E (world s) (path_resolve E (world s) (DB_PATH s)) \<longrightarrow>
      fst (execute_query E query s)
        = Inl (FileNotFoundError
            (''Database file not found: '' @ path_resolve E (world s) (DB_PATH s))))"
proof (intro conjI impI)
  assume g: "get_connection E s = (Inl e, s1)"
  then show "execute_query E query s = (Inl e, s1)"
    by (simp add: execute_query_def)
  from get_connection_result [OF g] show "db_connection s1 = None"
    by simp
  from get_connection_counts [OF g] show "executes (trace s1) = executes (trace s)"
    by simp
next
  assume "db_connection s = None
        \<and> \<not> path_exists E (world s) (path_resolve E (world s) (DB_PATH s))"
  then show "fst (execute_query E query s)
        = Inl (FileNotFoundError
            (''Database file not found: '' @ path_resolve E (world s) (DB_PATH s)))"
    by (simp add: execute_query_def get_connection_def Let_def)
qed

theorem execute_query_propagates_witness:
  "get_connection mock_env (manager ''locked.duckdb'' None (mock_world [''locked.duckdb''] [] []))
     = (Inl (DuckDBError ''IO Error: Cannot open file''),
        snd (get_connection mock_env
          (manager ''locked.duckdb'' None (mock_world [''locked.duckdb''] [] []))))
   \<and> fst (execute_query mock_env ''SELECT 1''
          (manager ''locked.duckdb'' None (mock_world [''locked.duckdb''] [] [])))
     = Inl (DuckDBError ''IO Error: Cannot open file'')
   \<and> fst (execute_query mock_env ''SELECT 1''
          (manager ''missing.duckdb'' None (mock_world [] [] [])))
     = Inl (FileNotFoundError ''Database file not found: missing.duckdb'')"
proof -
  let ?s = "manager ''locked.duckdb'' None (mock_world [''locked.duckdb''] [] [])"
  let ?t = "manager ''missing.duckdb'' None (mock_world [] [] [])"
  have g: "get_connection mock_env ?s
     = (Inl (DuckDBError ''IO Error: Cannot open file''), snd (get_connection mock_env ?s))"
    by (simp add: get_connection_def call_defs mock_defs Let_def)
  have m: "db_connection ?t = None
        \<and> \<not> path_exists mock_env (world ?t) (path_resolve mock_env (world ?t) (DB_PATH ?t))"
    by (simp add: mock_defs)
  from execute_query_propagates [of mock_env ?s "DuckDBError ''IO Error: Cannot open file''"
      "snd (get_connection mock_env ?s)" "''SELECT 1''"] g
  have a: "fst (execute_query mock_env ''SELECT 1'' ?s) = Inl (DuckDBError ''IO Error: Cannot open file'')"
    by simp
  from execute_query_propagates [of mock_env ?t _ _ "''SELECT 1''"] m
  have b: "fst (execute_query mock_env ''SELECT 1'' ?t)
     = Inl (FileNotFoundError ''Database file not found: missing.duckdb'')"
    by (simp add: mock_defs)
  from g a b show ?thesis by simp
qed

section \<open>Schema introspection on a broken handle\<close>

text \<open>
  C4, as stated: on a closed or broken connection \<open>get_table_names\<close> and
  \<open>get_table_schema\<close> fail explicitly. With a handle held on which every statement
  raises, both return the empty list.
\<close>

theorem introspection_on_broken_handle_counterexample:
  "fst (get_table_names mock_env (manager ''db.duckdb'' (Some 0) (mock_world [''db.duckdb''] [] [])))
     = Inr []
   \<and> fst (get_table_schema mock_env ''users''
        (manager ''db.duckdb'' (Some 0) (mock_world [''db.duckdb''] [] []))) = Inr []"
  by (simp add: get_table_names_def get_table_schema_def get_connection_def call_defs mock_defs Let_def)

text \<open>
  C4, amended: when the manager holds a handle and the statement raises on it,
  \<open>get_table_names\<close> and \<open>get_table_schema\<close> print the error and return the empty list;
  they fail explicitly, with the exception of \<open>get_connection\<close>, only when no handle is
  held and none can be opened.
\<close>

theorem introspection_on_broken_handle:
  "(db_connection s = Some h \<and> conn_execute E (world s) h ''SHOW TABLES'' = (Inl e, w) \<longrightarrow>
      get_table_names E s
        = (Inr [], s\<lparr>world := w,
             trace := trace s @ [Execute h ''SHOW TABLES'', Print (ErrorFetchingTables e)]\<rparr>))
   \<and> (db_connection s = Some h
        \<and> conn_execute E (world s) h (''DESCRIBE '' @ table_name) = (Inl e, w) \<longrightarrow>
      get_table_schema E table_name s
        = (Inr [], s\<lparr>world := w,
             trace := trace s @ [Print (FetchingSchema table_name),
               Execute h (''DESCRIBE '' @ table_name),
               Print (ErrorFetchingSchema table_name e)]\<rparr>))
   \<and> (get_connection E s = (Inl e, s1) \<longrightarrow>
      get_table_names E s = (Inl e, s1) \<and> get_table_schema E table_name s = (Inl e, s1))"
  by (simp add: get_table_names_def get_table_schema_def get_connection_held call_defs Let_def)

theorem introspection_on_broken_handle_witness:
  "conn_execute mock_env (mock_world [''db.duckdb''] [] []) 0 ''SHOW TABLES''
     = (Inl (DuckDBError ''Connection Error: Connection already closed''),
        mock_world [''db.duckdb''] [] [])
   \<and> fst (get_table_names mock_env
        (manager ''db.duckdb'' (Some 0) (mock_world [''db.duckdb''] [] []))) = Inr []
   \<and> fst (get_table_schema mock_env ''users''
        (manager ''db.duckdb'' (Some 0) (mock_world [''db.duckdb''] [] []))) = Inr []
   \<and> fst (get_table_names mock_env (manager ''missing.duckdb'' None (mock_world [] [] [])))
     = Inl (FileNotFoundError ''Database file not found: missing.duckdb'')"
proof -
  let ?w = "mock_world [''db.duckdb''] [] []"
  let ?s = "manager ''db.duckdb'' (Some 0) ?w"
  let ?t = "manager ''missing.duckdb'' None (mock_world [] [] [])"
  let ?e = "DuckDBError ''Connection Error: Connection already closed''"
  have x: "conn_execute mock_env ?w 0 q = (Inl ?e, ?w)" for q
    by (simp add: mock_defs)
  have c: "db_connection ?s = Some 0" "world ?s = ?w"
    by (simp_all add: mock_defs)
  have g: "get_connection mock_env ?t
     = (Inl (FileNotFoundError ''Database file not found: missing.duckdb''),
        snd (get_connection mock_env ?t))"
    by (simp add: get_connection_def call_defs mock_defs Let_def)
  from introspection_on_broken_handle [of ?s 0 mock_env ?e ?w "''users''"] x c
  have a: "fst (get_table_names mock_env ?s) = Inr []"
    "fst (get_table_schema mock_env ''users'' ?s) = Inr []"
    by simp_all
  from introspection_on_broken_handle [of ?t 0 mock_env
      "FileNotFoundError ''Database file not found: missing.duckdb''" _ "''users''"
      "snd (get_connection mock_env ?t)"] g
  have b: "fst (get_table_names mock_env ?t)
     = Inl (FileNotFoundError ''Database file not found: missing.duckdb'')"
    by simp
  from x [of "''SHOW TABLES''"] a b show ?thesis by simp
qed

section \<open>The singleton\<close>

text \<open>
  C5: in a sequence of \<open>get_connection\<close> calls with no reset or swap in between, every
  call after a successful one returns the same handle and changes nothing, neither the
  outside world nor the trace, so nothing is reopened. The call that opened the handle
  opened it on the resolved configured path, and the configured path stays the same.
  The connections opened during the sequence, together with a handle held at its
  start, are at most one.
\<close>

theorem singleton:
  "(get_connection E s = (Inr h, s1) \<longrightarrow> get_many E n s1 = (replicate n (Inr h), s1))
   \<and> (db_connection s = None \<and> get_connection E s = (Inr h, s1) \<longrightarrow>
        trace s1 = trace s @
          [Print (OpeningConnection (path_resolve E (world s) (DB_PATH s))),
           Connect (path_resolve E (world s) (DB_PATH s)) (Inr h)])
   \<and> (get_many E n s = (rs, s') \<longrightarrow>
        opens (trace s') + held s \<le> opens (trace s) + 1 \<and> DB_PATH s' = DB_PATH s)"
proof (intro conjI impI)
  assume g: "get_connection E s = (Inr h, s1)"
  from get_connection_result [OF g] have "db_connection s1 = Some h"
    by simp
  then show "get_many E n s1 = (replicate n (Inr h), s1)"
    by (rule get_many_held)
next
  assume "db_connection s = None \<and> get_connection E s = (Inr h, s1)"
  then show "trace s1 = trace s @
          [Print (OpeningConnection (path_resolve E (world s) (DB_PATH s))),
           Connect (path_resolve E (world s) (DB_PATH s)) (Inr h)]"
    by (auto simp: get_connection_def call_defs Let_def split: prod.splits sum.splits if_splits)
next
  assume m: "get_many E n s = (rs, s')"
  from get_many_opens [OF m] held_le [of s']
  show "opens (trace s') + held s \<le> opens (trace s) + 1"
    by simp
  from m show "DB_PATH s' = DB_PATH s"
    by (rule get_many_frame)
qed

theorem singleton_witness:
  "get_connection mock_env
      (manager ''db.duckdb'' None (mock_world [''db.duckdb''] [Inr 7, Inr 8] []))
     = (Inr 7, snd (get_connection mock_env
          (manager ''db.duckdb'' None (mock_world [''db.duckdb''] [Inr 7, Inr 8] []))))
   \<and> trace (snd (get_connection mock_env
          (manager ''db.duckdb'' None (mock_world [''db.duckdb''] [Inr 7, Inr 8] []))))
     = [Print (OpeningConnection ''db.duckdb''), Connect ''db.duckdb'' (Inr 7)]
   \<and> fst (get_many mock_env 3 (snd (get_connection mock_env
          (manager ''db.duckdb'' None (mock_world [''db.duckdb''] [Inr 7, Inr 8] [])))))
     = [Inr 7, Inr 7, Inr 7]
   \<and> opens (trace (snd (get_many mock_env 3
          (manager ''db.duckdb'' None (mock_world [''db.duckdb''] [Inr 7, Inr 8] []))))) \<le> 1"
proof -
  let ?s = "manager ''db.duckdb'' None (mock_world [''db.duckdb''] [Inr 7, Inr 8] [])"
  have g: "get_connection mock_env ?s = (Inr 7, snd (get_connection mock_env ?s))"
    by (simp add: get_connection_def call_defs mock_defs Let_def)
  have m: "get_many mock_env 3 ?s = (fst (get_many mock_env 3 ?s), snd (get_many mock_env 3 ?s))"
    by simp
  have z: "opens (trace ?s) = 0" "held ?s = 0" "db_connection ?s = None" "trace ?s = []"
    "path_resolve mock_env (world ?s) (DB_PATH ?s) = ''db.duckdb''"
    by (simp_all add: opens_def held_def mock_defs)
  from singleton [of mock_env ?s 7 "snd (get_connection mock_env ?s)" 3
      "fst (get_many mock_env 3 ?s)" "snd (get_many mock_env 3 ?s)"] g m z
  show ?thesis
    by (simp add: numeral_3_eq_3)
qed

section \<open>Resetting the connection\<close>



section \<open>Result shaping\<close>

text \<open>
  C9: when the connection is obtained, the statement runs and returns no row, and the
  column metadata is read, \<open>execute_query\<close> returns the column names of that metadata
  (none when it is \<open>None\<close>), no data and no error.
\<close>

theorem zero_rows:
  assumes "get_connection E s = (Inr conn, s1)"
    and "call_execute E conn query (log (ExecutingQuery (take 100 query)) s1) = (Inr [], s2)"
    and "conn_description E (world s2) conn = Inr description"
  shows "execute_query E query s
     = (Inr \<lparr>columns = (case description of None \<Rightarrow> [] | Some cols \<Rightarrow> map fst cols),
             data = [], error = None\<rparr>,
        log (QuerySucceeded 0) s2)"
  using assms
  by (simp add: execute_query_def fetch_result_def Let_def split: option.splits)

theorem zero_rows_witness:
  "fst (execute_query mock_env ''SELECT id FROM t WHERE 1 = 0''
          (manager ''db.duckdb'' (Some 0) (mock_world [''db.duckdb''] [] [Inr []])))
     = Inr \<lparr>columns = [''id''], data = [], error = None\<rparr>"
proof -
  let ?q = "''SELECT id FROM t WHERE 1 = 0''"
  let ?s = "manager ''db.duckdb'' (Some 0) (mock_world [''db.duckdb''] [] [Inr []])"
  let ?s2 = "snd (call_execute mock_env 0 ?q (log (ExecutingQuery (take 100 ?q)) ?s))"
  have g: "get_connection mock_env ?s = (Inr 0, ?s)"
    by (simp add: get_connection_def mock_defs)
  have x: "call_execute mock_env 0 ?q (log (ExecutingQuery (take 100 ?q)) ?s) = (Inr [], ?s2)"
    by (simp add: call_defs mock_defs)
  have d: "conn_description mock_env (world ?s2) 0 = Inr (Some [(''id'', ''INTEGER'')])"
    by (simp add: call_defs mock_defs)
  from zero_rows [OF g x d] show ?thesis
    by simp
qed

section \<open>Where the liveness probe runs\<close>



section \<open>The bounded retry\<close>

text \<open>
  C2: let the first run of the statement raise \<open>e\<close>. If the text of \<open>e\<close> matches the
  heuristic, \<open>reset_connection\<close> is entered exactly once. If that reset succeeds the
  statement is retried exactly once on the new handle, three statements have then been
  sent in all (the first run, the probe, the retry), and the result is the retry's: its
  rows, or the error \<open>Query failed after connection reset:\<close> with the second failure's
  text. If the reset fails there is no retry and the error field holds the text of \<open>e\<close>.
  If the text of \<open>e\<close> does not match, there is no reset and no retry, and the error field
  holds the text of \<open>e\<close> as it is.
\<close>

theorem bounded_retry:
  assumes conn: "get_connection E s = (Inr conn, s1)"
    and first: "fetch_result E conn query (log (ExecutingQuery (take 100 query)) s1) = (Inl e, s3)"
    and reset: "reset_connection E (log ConnectionIssue (log (ErrorExecuting e) s3)) = (ok, s6)"
    and run: "execute_query E query s = (res, s')"
  shows "(connection_fault e \<and> ok \<longrightarrow>
            resets (trace s') = resets (trace s) + 1
          \<and> retries (trace s') = retries (trace s) + 1
          \<and> executes (trace s') = executes (trace s) + 3
          \<and> (\<exists>h. db_connection s6 = Some h
               \<and> (case fetch_result E h query (log RetryingQuery s6) of
                    (Inl e2, s8) \<Rightarrow>
                      res = Inr \<lparr>columns = [], data = [],
                        error = Some (''Query failed after connection reset: '' @ exn_str e2)\<rparr>
                  | (Inr (rows, cols), s8) \<Rightarrow>
                      res = Inr \<lparr>columns = cols, data = rows, error = None\<rparr>)))
       \<and> (connection_fault e \<and> \<not> ok \<longrightarrow>
            resets (trace s') = resets (trace s) + 1
          \<and> retries (trace s') = retries (trace s)
          \<and> executes (trace s') \<le> executes (trace s) + 2
          \<and> res = Inr \<lparr>columns = [], data = [], error = Some (exn_str e)\<rparr>)
       \<and> (\<not> connection_fault e \<longrightarrow>
            resets (trace s') = resets (trace s)
          \<and> retries (trace s') = retries (trace s)
          \<and> executes (trace s') = executes (trace s) + 1
          \<and> res = Inr \<lparr>columns = [], data = [], error = Some (exn_str e)\<rparr>)"
proof -
  from get_connection_counts [OF conn]
  have c1: "resets (trace s1) = resets (trace s)" "retries (trace s1) = retries (trace s)"
    "executes (trace s1) = executes (trace s)"
    by simp_all
  from fetch_result_counts [OF first] c1
  have c3: "resets (trace s3) = resets (trace s)" "retries (trace s3) = retries (trace s)"
    "executes (trace s3) = executes (trace s) + 1"
    by (simp_all add: log_counts)
  from reset_connection_counts [OF reset] c3
  have c6: "resets (trace s6) = resets (trace s) + 1" "retries (trace s6) = retries (trace s)"
    "executes (trace s6) \<le> executes (trace s) + 2"
    "ok \<longrightarrow> executes (trace s6) = executes (trace s) + 2 \<and> (\<exists>h. db_connection s6 = Some h)"
    by (simp_all add: log_counts)
  have nofault: ?thesis if nf: "\<not> connection_fault e"
  proof -
    from conn first run nf
    have "res = Inr \<lparr>columns = [], data = [], error = Some (exn_str e)\<rparr>"
      "s' = log (ErrorExecuting e) s3"
      by (auto simp: execute_query_def Let_def)
    with c3 nf show ?thesis
      by (simp add: log_counts)
  qed
  have failed: ?thesis if cf: "connection_fault e" and nok: "\<not> ok"
  proof -
    from conn first reset run cf nok
    have "res = Inr \<lparr>columns = [], data = [], error = Some (exn_str e)\<rparr>" "s' = s6"
      by (auto simp: execute_query_def Let_def)
    with c6 cf nok show ?thesis
      by simp
  qed
  have retried: ?thesis if cf: "connection_fault e" and ok: ok
  proof -
    from c6(4) ok obtain h where h: "db_connection s6 = Some h"
      and x6: "executes (trace s6) = executes (trace s) + 2"
      by blast
    obtain r s7 where rq: "retry_query E query s6 = (r, s7)"
      by (cases "retry_query E query s6")
    from conn first reset run cf ok rq have rs: "res = Inr r" "s' = s7"
      by (auto simp: execute_query_def Let_def)
    from retry_query_held [OF h rq] c6 x6 rs h cf ok show ?thesis
      by (auto split: prod.splits sum.splits)
  qed
  from nofault failed retried show ?thesis
    by blast
qed

theorem bounded_retry_witness:
  "connection_fault (DuckDBError ''Connection Error: closed'')
   \<and> fst (execute_query mock_env ''SELECT x''
        (manager ''db.duckdb'' (Some 0) (mock_world [''db.duckdb''] [Inr 7]
          [Inl (DuckDBError ''Connection Error: closed''), Inr [[SInt 1]],
           Inl (DuckDBError ''Binder Error: x'')])))
     = Inr \<lparr>columns = [], data = [],
            error = Some ''Query failed after connection reset: Binder Error: x''\<rparr>
   \<and> resets (trace (snd (execute_query mock_env ''SELECT x''
        (manager ''db.duckdb'' (Some 0) (mock_world [''db.duckdb''] [Inr 7]
          [Inl (DuckDBError ''Connection Error: closed''), Inr [[SInt 1]],
           Inl (DuckDBError ''Binder Error: x'')]))))) = 1
   \<and> retries (trace (snd (execute_query mock_env ''SELECT x''
        (manager ''db.duckdb'' (Some 0) (mock_world [''db.duckdb''] [Inr 7]
          [Inl (DuckDBError ''Connection Error: closed''), Inr [[SInt 1]],
           Inl (DuckDBError ''Binder Error: x'')]))))) = 1
   \<and> executes (trace (snd (execute_query mock_env ''SELECT x''
        (manager ''db.duckdb'' (Some 0) (mock_world [''db.duckdb''] [Inr 7]
          [Inl (DuckDBError ''Connection Error: closed''), Inr [[SInt 1]],
           Inl (DuckDBError ''Binder Error: x'')]))))) = 3
   \<and> fst (execute_query mock_env ''SELECT x''
        (manager ''db.duckdb'' (Some 0) (mock_world [''db.duckdb''] []
          [Inl (DuckDBError ''Connection Error: closed'')])))
     = Inr \<lparr>columns = [], data = [], error = Some ''Connection Error: closed''\<rparr>
   \<and> resets (trace (snd (execute_query mock_env ''SELECT x''
        (manager ''db.duckdb'' (Some 0) (mock_world [''db.duckdb''] []
          [Inl (DuckDBError ''Connection Error: closed'')]))))) = 1
   \<and> retries (trace (snd (execute_query mock_env ''SELECT x''
        (manager ''db.duckdb'' (Some 0) (mock_world [''db.duckdb''] []
          [Inl (DuckDBError ''Connection Error: closed'')]))))) = 0
   \<and> \<not> connection_fault (DuckDBError ''Parser Error: syntax error'')
   \<and> fst (execute_query mock_env ''SELEC 1''
        (manager ''db.duckdb'' (Some 0) (mock_world [''db.duckdb''] [Inr 7]
          [Inl (DuckDBError ''Parser Error: syntax error'')])))
     = Inr \<lparr>columns = [], data = [], error = Some ''Parser Error: syntax error''\<rparr>
   \<and> resets (trace (snd (execute_query mock_env ''SELEC 1''
        (manager ''db.duckdb'' (Some 0) (mock_world [''db.duckdb''] [Inr 7]
          [Inl (DuckDBError ''Parser Error: syntax error'')]))))) = 0"
proof -
  let ?e = "DuckDBError ''Connection Error: closed''"
  let ?s = "manager ''db.duckdb'' (Some 0) (mock_world [''db.duckdb''] [Inr 7]
          [Inl ?e, Inr [[SInt 1]], Inl (DuckDBError ''Binder Error: x'')])"
  let ?s3 = "snd (fetch_result mock_env 0 ''SELECT x'' (log (ExecutingQuery (take 100 ''SELECT x'')) ?s))"
  let ?s6 = "snd (reset_connection mock_env (log ConnectionIssue (log (ErrorExecuting ?e) ?s3)))"
  let ?p = "DuckDBError ''Parser Error: syntax error''"
  let ?t = "manager ''db.duckdb'' (Some 0) (mock_world [''db.duckdb''] [Inr 7] [Inl ?p])"
  let ?t3 = "snd (fetch_result mock_env 0 ''SELEC 1'' (log (ExecutingQuery (take 100 ''SELEC 1'')) ?t))"
  let ?t6 = "snd (reset_connection mock_env (log ConnectionIssue (log (ErrorExecuting ?p) ?t3)))"
  have cf: "connection_fault ?e"
    by (simp add: connection_fault_def py_lower_def lower_char_def)
  have nf: "\<not> connection_fault ?p"
    by (simp add: connection_fault_def py_lower_def lower_char_def)
  have z: "resets (trace ?s) = 0" "retries (trace ?s) = 0" "executes (trace ?s) = 0"
    "resets (trace ?t) = 0"
    by (simp_all add: count_defs mock_defs)
  have g: "get_connection mock_env ?s = (Inr 0, ?s)"
    by (simp add: get_connection_def mock_defs)
  have f: "fetch_result mock_env 0 ''SELECT x'' (log (ExecutingQuery (take 100 ''SELECT x'')) ?s)
      = (Inl ?e, ?s3)"
    by (simp add: fetch_result_def call_defs mock_defs Let_def)
  have r: "reset_connection mock_env (log ConnectionIssue (log (ErrorExecuting ?e) ?s3)) = (True, ?s6)"
    by (simp add: exec_defs call_defs mock_defs Let_def)
  have x: "execute_query mock_env ''SELECT x'' ?s
      = (fst (execute_query mock_env ''SELECT x'' ?s), snd (execute_query mock_env ''SELECT x'' ?s))"
    by simp
  have "fst (fetch_result mock_env 7 ''SELECT x'' (log RetryingQuery ?s6))
      = Inl (DuckDBError ''Binder Error: x'')"
    by (simp add: exec_defs call_defs mock_defs Let_def)
  then obtain s8 where q: "fetch_result mock_env 7 ''SELECT x'' (log RetryingQuery ?s6)
      = (Inl (DuckDBError ''Binder Error: x''), s8)"
    by (cases "fetch_result mock_env 7 ''SELECT x'' (log RetryingQuery ?s6)") simp
  have h: "db_connection ?s6 = Some 7"
    by (simp add: exec_defs call_defs mock_defs Let_def)
  from bounded_retry [OF g f r x] cf z h q
  have a: "fst (execute_query mock_env ''SELECT x'' ?s)
     = Inr \<lparr>columns = [], data = [],
            error = Some ''Query failed after connection reset: Binder Error: x''\<rparr>"
    "resets (trace (snd (execute_query mock_env ''SELECT x'' ?s))) = 1"
    "retries (trace (snd (execute_query mock_env ''SELECT x'' ?s))) = 1"
    "executes (trace (snd (execute_query mock_env ''SELECT x'' ?s))) = 3"
    by simp_all
  let ?u = "manager ''db.duckdb'' (Some 0) (mock_world [''db.duckdb''] [] [Inl ?e])"
  let ?u3 = "snd (fetch_result mock_env 0 ''SELECT x'' (log (ExecutingQuery (take 100 ''SELECT x'')) ?u))"
  let ?u6 = "snd (reset_connection mock_env (log ConnectionIssue (log (ErrorExecuting ?e) ?u3)))"
  have zu: "resets (trace ?u) = 0" "retries (trace ?u) = 0"
    by (simp_all add: count_defs mock_defs)
  have gu: "get_connection mock_env ?u = (Inr 0, ?u)"
    by (simp add: get_connection_def mock_defs)
  have fu: "fetch_result mock_env 0 ''SELECT x'' (log (ExecutingQuery (take 100 ''SELECT x'')) ?u)
      = (Inl ?e, ?u3)"
    by (simp add: fetch_result_def call_defs mock_defs Let_def)
  have ru: "reset_connection mock_env (log ConnectionIssue (log (ErrorExecuting ?e) ?u3)) = (False, ?u6)"
    by (simp add: exec_defs call_defs mock_defs Let_def)
  have xu: "execute_query mock_env ''SELECT x'' ?u
      = (fst (execute_query mock_env ''SELECT x'' ?u), snd (execute_query mock_env ''SELECT x'' ?u))"
    by simp
  from bounded_retry [OF gu fu ru xu] cf zu
  have c: "fst (execute_query mock_env ''SELECT x'' ?u)
     = Inr \<lparr>columns = [], data = [], error = Some ''Connection Error: closed''\<rparr>"
    "resets (trace (snd (execute_query mock_env ''SELECT x'' ?u))) = 1"
    "retries (trace (snd (execute_query mock_env ''SELECT x'' ?u))) = 0"
    by simp_all
  have g': "get_connection mock_env ?t = (Inr 0, ?t)"
    by (simp add: get_connection_def mock_defs)
  have f': "fetch_result mock_env 0 ''SELEC 1'' (log (ExecutingQuery (take 100 ''SELEC 1'')) ?t)
      = (Inl ?p, ?t3)"
    by (simp add: fetch_result_def call_defs mock_defs Let_def)
  have r': "reset_connection mock_env (log ConnectionIssue (log (ErrorExecuting ?p) ?t3))
      = (fst (reset_connection mock_env (log ConnectionIssue (log (ErrorExecuting ?p) ?t3))), ?t6)"
    by simp
  have x': "execute_query mock_env ''SELEC 1'' ?t
      = (fst (execute_query mock_env ''SELEC 1'' ?t), snd (execute_query mock_env ''SELEC 1'' ?t))"
    by simp
  from bounded_retry [OF g' f' r' x'] nf z
  have b: "fst (execute_query mock_env ''SELEC 1'' ?t)
     = Inr \<lparr>columns = [], data = [], error = Some ''Parser Error: syntax error''\<rparr>"
    "resets (trace (snd (execute_query mock_env ''SELEC 1'' ?t))) = 0"
    by simp_all
  from cf nf a b c show ?thesis
    by blast
qed

section \<open>The upload endpoint\<close>

text \<open>
  A file name that ends in neither \<open>.duckdb\<close> nor \<open>.db\<close> is refused with the state
  untouched: nothing is written.
\<close>

lemma upload_rejected_before_persist:
  assumes "\<not> endswith (filename file) ''.duckdb''" and "\<not> endswith (filename file) ''.db''"
  shows "success (fst (change_database_endpoint E (Some file) s)) = False
       \<and> snd (change_database_endpoint E (Some file) s) = s"
  using assms by (simp add: change_database_endpoint_def)

text \<open>When the swap to the written file fails and the file exists, it is unlinked.\<close>

lemma upload_cleanup_on_validation_failure:
  assumes "filename file \<noteq> []"
    and "endswith (filename file) ''.duckdb'' \<or> endswith (filename file) ''.db''"
    and "call_mkdir E ''temp_db'' s = (None, s1)"
    and "call_write E (path_join E ''temp_db'' (filename file)) (payload file) s1 = (None, s2)"
    and "reset_with_new_db E (path_join E ''temp_db'' (filename file)) s2 = ((False, err), s3)"
    and "path_exists E (world s3) (path_join E ''temp_db'' (filename file))"
  shows "success (fst (change_database_endpoint E (Some file) s)) = False
       \<and> (\<exists>rest. trace (snd (change_database_endpoint E (Some file) s))
           = trace s3 @ Unlink (path_join E ''temp_db'' (filename file)) # rest)"
  using assms
  by (auto simp: change_database_endpoint_def endpoint_failed_def call_unlink_def log_def Let_def
      split: prod.splits option.splits)

text \<open>
  When the write raises, the handler returns the error and does nothing else: the state
  is the one the write left, with one line printed.
\<close>

lemma upload_write_failure_no_cleanup:
  assumes "filename file \<noteq> []"
    and "endswith (filename file) ''.duckdb'' \<or> endswith (filename file) ''.db''"
    and "call_mkdir E ''temp_db'' s = (None, s1)"
    and "call_write E (path_join E ''temp_db'' (filename file)) (payload file) s1 = (Some e, s2)"
  shows "change_database_endpoint E (Some file) s
       = (\<lparr>success = False, message = ''An error occurred: '' @ exn_str e\<rparr>,
          log (ErrorChangeDatabase e) s2)"
  using assms
  by (auto simp: change_database_endpoint_def endpoint_failed_def Let_def)

text \<open>
  C8 at an upload whose write raises after the target was created: the answer is an
  error, the file \<open>temp_db/new.duckdb\<close> is still there, and no unlink was attempted.
\<close>

theorem upload_write_failure_leaks:
  "fst (change_database_endpoint mock_env
          (Some \<lparr>filename = ''new.duckdb'', payload = ''partial''\<rparr>)
          (manager ''db.duckdb'' None
            ((mock_world [''db.duckdb''] [] [])
              \<lparr>m_writes := [Some (OSError ''No space left on device'')]\<rparr>)))
     = \<lparr>success = False, message = ''An error occurred: No space left on device''\<rparr>
   \<and> path_exists mock_env
        (world (snd (change_database_endpoint mock_env
          (Some \<lparr>filename = ''new.duckdb'', payload = ''partial''\<rparr>)
          (manager ''db.duckdb'' None
            ((mock_world [''db.duckdb''] [] [])
              \<lparr>m_writes := [Some (OSError ''No space left on device'')]\<rparr>)))))
        ''temp_db/new.duckdb''
   \<and> trace (snd (change_database_endpoint mock_env
          (Some \<lparr>filename = ''new.duckdb'', payload = ''partial''\<rparr>)
          (manager ''db.duckdb'' None
            ((mock_world [''db.duckdb''] [] [])
              \<lparr>m_writes := [Some (OSError ''No space left on device'')]\<rparr>))))
     = [MkDir ''temp_db'', WriteFile ''temp_db/new.duckdb'',
        Print (ErrorChangeDatabase (OSError ''No space left on device''))]"
  by (simp add: change_database_endpoint_def endpoint_failed_def endswith_def call_defs
      mock_defs Let_def)

end
